theory Spec2Isabelle
  imports Main
begin

section \<open>JavaScript values\<close>

text \<open>
  The values the component handles: what \<^verbatim>\<open>JSON.parse\<close> returns, the literals of the
  source, and \<^verbatim>\<open>undefined\<close> (a missing property). IEEE doubles are not modelled: the
  number type \<open>'n\<close> and the two operations the program applies to a number (the truthiness
  test and the conversion to a string) are parameters. An object is the list of its own
  properties; \<^verbatim>\<open>JSON.parse\<close> returns objects whose keys are distinct.
\<close>

datatype 'n jsval =
    Undefined
  | Null
  | Bool bool
  | Num 'n
  | Str string
  | Arr "'n jsval list"
  | Obj "(string \<times> 'n jsval) list"

text \<open>The exceptions that can be raised in the code modelled here. A \<^verbatim>\<open>fetch\<close> that
  cannot reach the server rejects with a \<^verbatim>\<open>TypeError\<close>.\<close>

datatype js_error = SyntaxError | TypeError

text \<open>
  What the program needs from the JavaScript engine: \<^verbatim>\<open>JSON.parse\<close> (which raises
  \<^verbatim>\<open>SyntaxError\<close> on a text that is not JSON), whether a number is falsy
  (\<^verbatim>\<open>0\<close>, \<^verbatim>\<open>-0\<close>, \<^verbatim>\<open>NaN\<close>) and the string a number converts to.
\<close>

record 'n platform =
  JSON_parse :: "string \<Rightarrow> js_error + 'n jsval"
  number_falsy :: "'n \<Rightarrow> bool"
  number_to_string :: "'n \<Rightarrow> string"

text \<open>\<^verbatim>\<open>ToBoolean\<close>: the test of \<^verbatim>\<open>if (v)\<close> and of \<^verbatim>\<open>v || w\<close>.\<close>

fun truthy :: "'n platform \<Rightarrow> 'n jsval \<Rightarrow> bool" where
  "truthy P Undefined = False"
| "truthy P Null = False"
| "truthy P (Bool b) = b"
| "truthy P (Num n) = (\<not> number_falsy P n)"
| "truthy P (Str s) = (s \<noteq> [])"
| "truthy P (Arr xs) = True"
| "truthy P (Obj kvs) = True"

text \<open>\<^verbatim>\<open>a || b\<close>, both operands already evaluated (the operands in the source are
  property reads and literals, which have no effect).\<close>

definition js_or :: "'n platform \<Rightarrow> 'n jsval \<Rightarrow> 'n jsval \<Rightarrow> 'n jsval" where
  "js_or P a b = (if truthy P a then a else b)"

text \<open>
  \<^verbatim>\<open>v.k\<close> for the property names the source reads (\<^verbatim>\<open>error\<close>, \<^verbatim>\<open>details\<close>,
  \<^verbatim>\<open>detail\<close>, \<^verbatim>\<open>authenticated\<close>), none of which is defined on a built-in prototype:
  reading a property of \<^verbatim>\<open>null\<close> or \<^verbatim>\<open>undefined\<close> raises \<^verbatim>\<open>TypeError\<close>, an object
  gives its own property or \<^verbatim>\<open>undefined\<close>, every other value gives \<^verbatim>\<open>undefined\<close>.
\<close>

fun get_prop :: "'n jsval \<Rightarrow> string \<Rightarrow> js_error + 'n jsval" where
  "get_prop Undefined k = Inl TypeError"
| "get_prop Null k = Inl TypeError"
| "get_prop (Obj kvs) k = Inr (case map_of kvs k of None \<Rightarrow> Undefined | Some v \<Rightarrow> v)"
| "get_prop (Bool b) k = Inr Undefined"
| "get_prop (Num n) k = Inr Undefined"
| "get_prop (Str s) k = Inr Undefined"
| "get_prop (Arr xs) k = Inr Undefined"

text \<open>\<^verbatim>\<open>v?.k\<close>: \<^verbatim>\<open>undefined\<close> when \<open>v\<close> is \<^verbatim>\<open>null\<close> or \<^verbatim>\<open>undefined\<close>.\<close>

fun get_prop_opt :: "'n jsval \<Rightarrow> string \<Rightarrow> js_error + 'n jsval" where
  "get_prop_opt Undefined k = Inr Undefined"
| "get_prop_opt Null k = Inr Undefined"
| "get_prop_opt v k = get_prop v k"

text \<open>
  \<^verbatim>\<open>ToString\<close>, as a template literal applies it to a value that came out of
  \<^verbatim>\<open>JSON.parse\<close>. An array is joined with commas, \<^verbatim>\<open>null\<close> and \<^verbatim>\<open>undefined\<close>
  elements giving the empty string. An object gives \<^verbatim>\<open>[object Object]\<close>, unless it has an
  own property \<^verbatim>\<open>toString\<close>: that property is not callable, \<^verbatim>\<open>valueOf\<close> returns no
  primitive either, and the conversion raises \<^verbatim>\<open>TypeError\<close>.
\<close>

fun ToString :: "'n platform \<Rightarrow> 'n jsval \<Rightarrow> js_error + string"
  and join_elems :: "'n platform \<Rightarrow> 'n jsval list \<Rightarrow> js_error + string" where
  "ToString P Undefined = Inr ''undefined''"
| "ToString P Null = Inr ''null''"
| "ToString P (Bool b) = Inr (if b then ''true'' else ''false'')"
| "ToString P (Num n) = Inr (number_to_string P n)"
| "ToString P (Str s) = Inr s"
| "ToString P (Arr xs) = join_elems P xs"
| "ToString P (Obj kvs) =
     (if map_of kvs ''toString'' = None then Inr ''[object Object]'' else Inl TypeError)"
| "join_elems P [] = Inr []"
| "join_elems P (x # xs) =
     (case (if x = Null \<or> x = Undefined then Inr [] else ToString P x) of
        Inl e \<Rightarrow> Inl e
      | Inr s \<Rightarrow>
          (if xs = [] then Inr s
           else (case join_elems P xs of Inl e \<Rightarrow> Inl e | Inr t \<Rightarrow> Inr (s @ '','' @ t))))"

text \<open>
  \<^verbatim>\<open>Object.is\<close>, by which React compares a new state value with the old one and the
  dependencies of an effect. The second argument is the value being written: an array or an
  object written to the state was just made by \<^verbatim>\<open>JSON.parse\<close>, so it is a reference the
  state has never held.
\<close>

fun Object_is :: "'n jsval \<Rightarrow> 'n jsval \<Rightarrow> bool" where
  "Object_is a (Arr xs) = False"
| "Object_is a (Obj kvs) = False"
| "Object_is a b = (a = b)"

section \<open>The component's state\<close>

text \<open>The \<^verbatim>\<open>readyState\<close> of a WebSocket.\<close>

datatype ready_state = CONNECTING | OPEN | CLOSING | CLOSED

text \<open>
  The five \<^verbatim>\<open>useState\<close> cells of \<^verbatim>\<open>App\<close>, the ref \<^verbatim>\<open>ws\<close> (\<open>None\<close> is
  \<^verbatim>\<open>null\<close>, \<open>Some i\<close> the \<open>i\<close>-th WebSocket made), the \<^verbatim>\<open>readyState\<close> of every
  WebSocket made so far, in the order of creation, and the address last assigned to
  \<^verbatim>\<open>window.location.href\<close>.
\<close>

record 'n app =
  isAuthenticated :: "'n jsval"
  userData :: "'n jsval"
  loading :: bool
  error :: "'n jsval"
  statusMessage :: string
  ws :: "nat option"
  sockets :: "ready_state list"
  location_href :: "string option"

definition BACKEND_URL :: string where
  "BACKEND_URL = ''https://aedesign-sonoff-backend.onrender.com''"

text \<open>The state at the first render.\<close>

definition init :: "'n app" where
  "init = \<lparr> isAuthenticated = Bool False, userData = Null, loading = True, error = Null,
            statusMessage = [], ws = None, sockets = [], location_href = None \<rparr>"

section \<open>The handlers of the WebSocket\<close>

definition onopen :: "'n app \<Rightarrow> 'n app" where
  "onopen s = s\<lparr> statusMessage := ''Connected to server. Ready to fetch data.'' \<rparr>"

text \<open>
  \<^verbatim>\<open>onmessage\<close>: \<open>Inl\<close> is the exception the handler raises. Every exception of the
  handler is raised before its first state update.
\<close>

definition onmessage :: "'n platform \<Rightarrow> string \<Rightarrow> 'n app \<Rightarrow> js_error + 'n app" where
  "onmessage P event_data s =
     (case JSON_parse P event_data of
        Inl e \<Rightarrow> Inl e
      | Inr data \<Rightarrow>
          (case get_prop data ''error'' of
             Inl e \<Rightarrow> Inl e
           | Inr err \<Rightarrow>
               if truthy P err then
                 (case get_prop data ''details'' of
                    Inl e \<Rightarrow> Inl e
                  | Inr details \<Rightarrow>
                      (case ToString P (js_or P details err) of
                         Inl e \<Rightarrow> Inl e
                       | Inr m \<Rightarrow>
                           Inr (s\<lparr> error := Str (''Error from server: '' @ m),
                                  userData := Null,
                                  statusMessage := ''Data received!'' \<rparr>)))
               else
                 Inr (s\<lparr> userData := data, error := Null,
                        statusMessage := ''Data received!'' \<rparr>)))"

definition onerror :: "'n app \<Rightarrow> 'n app" where
  "onerror s = s\<lparr> error := Str ''A WebSocket error occurred. Connection may be lost.'' \<rparr>"

definition onclose :: "'n app \<Rightarrow> 'n app" where
  "onclose s = s\<lparr> statusMessage := ''Disconnected from server.'', ws := None \<rparr>"

section \<open>The effect that manages the WebSocket\<close>

text \<open>\<^verbatim>\<open>close()\<close> on the \<open>i\<close>-th WebSocket: a socket that is connecting or open starts
  closing, one that is closing or closed stays as it is.\<close>

definition close_socket :: "nat \<Rightarrow> ready_state list \<Rightarrow> ready_state list" where
  "close_socket i socks =
     (if i < length socks \<and> (socks ! i = CONNECTING \<or> socks ! i = OPEN)
      then socks[i := CLOSING] else socks)"

text \<open>The cleanup the effect returns: it reads the ref when it runs.\<close>

definition cleanup :: "'n app \<Rightarrow> 'n app" where
  "cleanup s =
     (case ws s of
        None \<Rightarrow> s
      | Some i \<Rightarrow>
          if i < length (sockets s) \<and> sockets s ! i = OPEN
          then s\<lparr> sockets := close_socket i (sockets s) \<rparr> else s)"

text \<open>The body of the effect. \<^verbatim>\<open>new WebSocket\<close> appends a connecting socket and the ref
  takes its index.\<close>

definition effect :: "'n platform \<Rightarrow> 'n app \<Rightarrow> 'n app" where
  "effect P s =
     (if truthy P (isAuthenticated s) then
        (case ws s of
           None \<Rightarrow> s\<lparr> ws := Some (length (sockets s)), sockets := sockets s @ [CONNECTING] \<rparr>
         | Some i \<Rightarrow> s)
      else
        (case ws s of
           None \<Rightarrow> s
         | Some i \<Rightarrow> s\<lparr> sockets := close_socket i (sockets s) \<rparr>))"

text \<open>
  \<^verbatim>\<open>setIsAuthenticated(v)\<close> together with the render it causes: when the value is the
  one the state holds, React renders nothing and no effect runs; otherwise the dependency
  of the effect has changed, so the cleanup of the last run and then the effect run, with
  the new value.
\<close>

definition setIsAuthenticated :: "'n platform \<Rightarrow> 'n jsval \<Rightarrow> 'n app \<Rightarrow> 'n app" where
  "setIsAuthenticated P v s =
     (if Object_is (isAuthenticated s) v then s
      else effect P (cleanup (s\<lparr> isAuthenticated := v \<rparr>)))"

section \<open>The HTTP requests\<close>

text \<open>How a \<^verbatim>\<open>fetch\<close> ends: the promise rejects, or it resolves to a response with its
  \<^verbatim>\<open>ok\<close> flag and the text of its body.\<close>

datatype http_outcome = NetworkFailure | Response bool string

text \<open>\<^verbatim>\<open>checkAuthStatus\<close>: the \<^verbatim>\<open>try\<close> block, then \<^verbatim>\<open>catch\<close> and \<^verbatim>\<open>finally\<close>.\<close>

definition checkAuthStatus_try :: "'n platform \<Rightarrow> http_outcome \<Rightarrow> 'n app \<Rightarrow> js_error + 'n app" where
  "checkAuthStatus_try P outcome s =
     (case outcome of
        NetworkFailure \<Rightarrow> Inl TypeError
      | Response ok body \<Rightarrow>
          if ok then
            (case JSON_parse P body of
               Inl e \<Rightarrow> Inl e
             | Inr data \<Rightarrow>
                 (case get_prop data ''authenticated'' of
                    Inl e \<Rightarrow> Inl e
                  | Inr v \<Rightarrow> Inr (setIsAuthenticated P v s)))
          else Inr (s\<lparr> error := Str ''Failed to check authentication status.'' \<rparr>))"

definition checkAuthStatus :: "'n platform \<Rightarrow> http_outcome \<Rightarrow> 'n app \<Rightarrow> 'n app" where
  "checkAuthStatus P outcome s =
     (case checkAuthStatus_try P outcome s of
        Inl e \<Rightarrow> s\<lparr> error := Str ''Cannot connect to the backend. Is it running?'' \<rparr>
      | Inr s' \<Rightarrow> s') \<lparr> loading := False \<rparr>"

definition handleLogout :: "'n platform \<Rightarrow> 'n app \<Rightarrow> 'n app" where
  "handleLogout P s =
     (setIsAuthenticated P (Bool False) s)
       \<lparr> userData := Null, location_href := Some (BACKEND_URL @ ''/logout'') \<rparr>"

text \<open>\<^verbatim>\<open>handleGetData\<close> up to its first \<^verbatim>\<open>await\<close>.\<close>

definition handleGetData_start :: "'n app \<Rightarrow> 'n app" where
  "handleGetData_start s =
     s\<lparr> statusMessage := ''Requesting data from eWeLink...'', userData := Null, error := Null \<rparr>"

text \<open>\<^verbatim>\<open>result.detail?.error || result.detail || 'Failed to trigger data fetch.'\<close>\<close>

definition trigger_error :: "'n platform \<Rightarrow> 'n jsval \<Rightarrow> js_error + 'n jsval" where
  "trigger_error P result =
     (case get_prop result ''detail'' of
        Inl e \<Rightarrow> Inl e
      | Inr detail \<Rightarrow>
          (case get_prop_opt detail ''error'' of
             Inl e \<Rightarrow> Inl e
           | Inr nested \<Rightarrow>
               Inr (js_or P (js_or P nested detail) (Str ''Failed to trigger data fetch.''))))"

text \<open>\<^verbatim>\<open>handleGetData\<close> once the request has ended: the rest of the \<^verbatim>\<open>try\<close> block,
  then \<^verbatim>\<open>catch\<close>.\<close>

definition handleGetData_try :: "'n platform \<Rightarrow> http_outcome \<Rightarrow> 'n app \<Rightarrow> js_error + 'n app" where
  "handleGetData_try P outcome s =
     (case outcome of
        NetworkFailure \<Rightarrow> Inl TypeError
      | Response ok body \<Rightarrow>
          (case JSON_parse P body of
             Inl e \<Rightarrow> Inl e
           | Inr result \<Rightarrow>
               if \<not> ok then
                 (case trigger_error P result of
                    Inl e \<Rightarrow> Inl e
                  | Inr m \<Rightarrow> Inr (s\<lparr> error := m, statusMessage := [] \<rparr>))
               else Inr s))"

definition handleGetData_done :: "'n platform \<Rightarrow> http_outcome \<Rightarrow> 'n app \<Rightarrow> 'n app" where
  "handleGetData_done P outcome s =
     (case handleGetData_try P outcome s of
        Inl e \<Rightarrow> s\<lparr> error := Str ''Failed to send data request to backend.'', statusMessage := [] \<rparr>
      | Inr s' \<Rightarrow> s')"

definition handleGetData :: "'n platform \<Rightarrow> http_outcome \<Rightarrow> 'n app \<Rightarrow> 'n app" where
  "handleGetData P outcome s = handleGetData_done P outcome (handleGetData_start s)"

section \<open>Executions\<close>

text \<open>
  What can happen to the mounted component: a write to \<^verbatim>\<open>isAuthenticated\<close>, the end of
  the status request, a click on Logout, a click on Fetch and the end of its request, and
  the four events of a WebSocket. The browser delivers \<^verbatim>\<open>open\<close> to a connecting socket,
  \<^verbatim>\<open>message\<close> to an open one and \<^verbatim>\<open>close\<close> to one that is not closed yet, which it
  then is. An exception that leaves a handler is reported and the state stays as it was.
\<close>

datatype 'n event =
    SetAuthenticated "'n jsval"
  | ProbeDone http_outcome
  | Logout
  | GetDataStart
  | GetDataDone http_outcome
  | WsOpen nat
  | WsMessage nat string
  | WsError nat
  | WsClose nat

fun step :: "'n platform \<Rightarrow> 'n event \<Rightarrow> 'n app \<Rightarrow> 'n app" where
  "step P (SetAuthenticated v) s = setIsAuthenticated P v s"
| "step P (ProbeDone outcome) s = checkAuthStatus P outcome s"
| "step P Logout s = handleLogout P s"
| "step P GetDataStart s = handleGetData_start s"
| "step P (GetDataDone outcome) s = handleGetData_done P outcome s"
| "step P (WsOpen i) s =
     (if i < length (sockets s) \<and> sockets s ! i = CONNECTING
      then onopen (s\<lparr> sockets := (sockets s)[i := OPEN] \<rparr>) else s)"
| "step P (WsMessage i event_data) s =
     (if i < length (sockets s) \<and> sockets s ! i = OPEN
      then (case onmessage P event_data s of Inl e \<Rightarrow> s | Inr s' \<Rightarrow> s') else s)"
| "step P (WsError i) s = (if i < length (sockets s) then onerror s else s)"
| "step P (WsClose i) s =
     (if i < length (sockets s) \<and> sockets s ! i \<noteq> CLOSED
      then onclose (s\<lparr> sockets := (sockets s)[i := CLOSED] \<rparr>) else s)"

fun run :: "'n platform \<Rightarrow> 'n event list \<Rightarrow> 'n app \<Rightarrow> 'n app" where
  "run P [] s = s"
| "run P (e # es) s = run P es (step P e s)"

text \<open>The WebSockets that are not closed.\<close>

definition live_channels :: "'n app \<Rightarrow> nat" where
  "live_channels s = length (filter (\<lambda>r. r \<noteq> CLOSED) (sockets s))"

text \<open>The value an event writes to \<^verbatim>\<open>isAuthenticated\<close>, if it writes one.\<close>

fun auth_write :: "'n platform \<Rightarrow> 'n event \<Rightarrow> 'n jsval option" where
  "auth_write P (SetAuthenticated v) = Some v"
| "auth_write P (ProbeDone (Response True body)) =
     (case JSON_parse P body of
        Inl e \<Rightarrow> None
      | Inr data \<Rightarrow> (case get_prop data ''authenticated'' of Inl e \<Rightarrow> None | Inr v \<Rightarrow> Some v))"
| "auth_write P Logout = Some (Bool False)"
| "auth_write P e = None"

section \<open>Properties of executions\<close>

fun is_Bool :: "'n jsval \<Rightarrow> bool" where
  "is_Bool (Bool b) = True"
| "is_Bool v = False"

text \<open>\<^verbatim>\<open>isAuthenticated\<close> holds a boolean in every state of the execution.\<close>

fun boolean_auth :: "'n platform \<Rightarrow> 'n event list \<Rightarrow> 'n app \<Rightarrow> bool" where
  "boolean_auth P [] s = is_Bool (isAuthenticated s)"
| "boolean_auth P (e # es) s = (is_Bool (isAuthenticated s) \<and> boolean_auth P es (step P e s))"

text \<open>The steps of an execution that take \<^verbatim>\<open>isAuthenticated\<close> from \<^verbatim>\<open>false\<close> to
  \<^verbatim>\<open>true\<close> in a state whose ref is \<^verbatim>\<open>null\<close>.\<close>

fun opening_flips :: "'n platform \<Rightarrow> 'n event list \<Rightarrow> 'n app \<Rightarrow> nat" where
  "opening_flips P [] s = 0"
| "opening_flips P (e # es) s =
     (if isAuthenticated s = Bool False \<and> isAuthenticated (step P e s) = Bool True \<and> ws s = None
      then 1 else 0) + opening_flips P es (step P e s)"

text \<open>No step of the execution changes \<^verbatim>\<open>isAuthenticated\<close>: every write to it writes the
  value it holds.\<close>

fun auth_steady :: "'n platform \<Rightarrow> 'n event list \<Rightarrow> 'n app \<Rightarrow> bool" where
  "auth_steady P [] s = True"
| "auth_steady P (e # es) s =
     ((case auth_write P e of None \<Rightarrow> True | Some v \<Rightarrow> Object_is (isAuthenticated s) v)
      \<and> auth_steady P es (step P e s))"

text \<open>The step makes a WebSocket.\<close>

definition creates :: "'n platform \<Rightarrow> 'n event \<Rightarrow> 'n app \<Rightarrow> bool" where
  "creates P e s =
     (case auth_write P e of
        None \<Rightarrow> False
      | Some v \<Rightarrow> \<not> Object_is (isAuthenticated s) v \<and> truthy P v \<and> ws s = None)"

text \<open>The invariant of the ref: a WebSocket that is not closed is the one the ref holds.\<close>

definition one_handle :: "'n app \<Rightarrow> bool" where
  "one_handle s = (\<forall>i < length (sockets s). sockets s ! i \<noteq> CLOSED \<longrightarrow> ws s = Some i)"

section \<open>A platform to evaluate on\<close>

text \<open>
  An instance of the platform, for evaluating the handlers on concrete texts. A number is
  represented by the string it converts to. The parser agrees with \<^verbatim>\<open>JSON.parse\<close> on
  the texts listed here and on every text that is not JSON.
\<close>

definition sample_texts :: "(string \<times> string jsval) list" where
  \<open>sample_texts =
     [(''{"authenticated":true}'', Obj [(''authenticated'', Bool True)]),
      (''{"authenticated":false}'', Obj [(''authenticated'', Bool False)]),
      (''{"temp":21}'', Obj [(''temp'', Num ''21'')]),
      (''{"error":"E1","details":"bad token"}'',
         Obj [(''error'', Str ''E1''), (''details'', Str ''bad token'')]),
      (''{"error":"E7"}'', Obj [(''error'', Str ''E7'')]),
      (''{"error":""}'', Obj [(''error'', Str [])]),
      (''{"detail":{"error":"rate limited"}}'',
         Obj [(''detail'', Obj [(''error'', Str ''rate limited'')])]),
      (''{"detail":"forbidden"}'', Obj [(''detail'', Str ''forbidden'')]),
      (''{}'', Obj []),
      (''null'', Null)]\<close>

definition sample_platform :: "string platform" where
  "sample_platform =
     \<lparr> JSON_parse =
         (\<lambda>t. case map_of sample_texts t of None \<Rightarrow> Inl SyntaxError | Some v \<Rightarrow> Inr v),
       number_falsy = (\<lambda>n. n = ''0'' \<or> n = ''NaN''),
       number_to_string = (\<lambda>n. n) \<rparr>"

section \<open>Reading the state through the effect\<close>

lemma Object_is_eq: "Object_is a b \<Longrightarrow> a = b"
  by (cases b) simp_all

lemma isAuthenticated_cleanup [simp]: "isAuthenticated (cleanup s) = isAuthenticated s"
  by (simp add: cleanup_def split: option.splits)

lemma isAuthenticated_effect [simp]: "isAuthenticated (effect P s) = isAuthenticated s"
  by (simp add: effect_def split: option.splits)

lemma isAuthenticated_setIsAuthenticated: "isAuthenticated (setIsAuthenticated P v s) = v"
  by (auto simp: setIsAuthenticated_def dest: Object_is_eq)

lemma error_cleanup [simp]: "error (cleanup s) = error s"
  by (simp add: cleanup_def split: option.splits)

lemma error_effect [simp]: "error (effect P s) = error s"
  by (simp add: effect_def split: option.splits)

lemma error_setIsAuthenticated: "error (setIsAuthenticated P v s) = error s"
  by (simp add: setIsAuthenticated_def)

lemma ws_cleanup [simp]: "ws (cleanup s) = ws s"
  by (simp add: cleanup_def split: option.splits)

lemma length_close_socket [simp]: "length (close_socket i socks) = length socks"
  by (simp add: close_socket_def)

lemma length_sockets_cleanup [simp]: "length (sockets (cleanup s)) = length (sockets s)"
  by (simp add: cleanup_def split: option.splits)

lemma nth_close_socket:
  "j < length socks \<Longrightarrow> close_socket i socks ! j \<noteq> CLOSED \<Longrightarrow> socks ! j \<noteq> CLOSED"
  by (auto simp: close_socket_def nth_list_update split: if_splits)

lemma one_handle_cleanup: "one_handle s \<Longrightarrow> one_handle (cleanup s)"
  by (auto simp: one_handle_def cleanup_def dest: nth_close_socket split: option.splits)

lemma one_handle_effect: "one_handle s \<Longrightarrow> one_handle (effect P s)"
  by (auto simp: one_handle_def effect_def nth_append dest: nth_close_socket
      split: option.splits)

lemma one_handle_isAuthenticated_update [simp]:
  "one_handle (s\<lparr> isAuthenticated := v \<rparr>) = one_handle s"
  by (simp add: one_handle_def)

lemma one_handle_setIsAuthenticated: "one_handle s \<Longrightarrow> one_handle (setIsAuthenticated P v s)"
  by (simp add: setIsAuthenticated_def one_handle_effect one_handle_cleanup)

lemma sockets_onmessage: "onmessage P d s = Inr s' \<Longrightarrow> sockets s' = sockets s \<and> ws s' = ws s \<and> isAuthenticated s' = isAuthenticated s"
  by (auto simp: onmessage_def split: sum.splits if_splits)

lemma one_handle_onmessage: "onmessage P d s = Inr s' \<Longrightarrow> one_handle s' = one_handle s"
  by (drule sockets_onmessage) (simp add: one_handle_def)

lemma sockets_handleGetData_done:
  "sockets (handleGetData_done P out s) = sockets s"
  "ws (handleGetData_done P out s) = ws s"
  "isAuthenticated (handleGetData_done P out s) = isAuthenticated s"
  by (auto simp: handleGetData_done_def handleGetData_try_def split: sum.splits http_outcome.splits if_splits)

lemma one_handle_step: "one_handle s \<Longrightarrow> one_handle (step P e s)"
proof (cases e)
  case (SetAuthenticated v)
  assume "one_handle s"
  then show ?thesis using SetAuthenticated by (simp add: one_handle_setIsAuthenticated)
next
  case (ProbeDone out)
  assume "one_handle s"
  then show ?thesis using ProbeDone one_handle_setIsAuthenticated [of s P]
    by (auto simp: checkAuthStatus_def checkAuthStatus_try_def one_handle_def
        split: http_outcome.splits sum.splits)
next
  case Logout
  assume "one_handle s"
  then show ?thesis using Logout one_handle_setIsAuthenticated [of s P "Bool False"]
    by (simp add: handleLogout_def one_handle_def)
next
  case GetDataStart
  assume "one_handle s"
  then show ?thesis using GetDataStart by (simp add: handleGetData_start_def one_handle_def)
next
  case (GetDataDone out)
  assume "one_handle s"
  then show ?thesis using GetDataDone by (simp add: sockets_handleGetData_done one_handle_def)
next
  case (WsOpen i)
  assume "one_handle s"
  then show ?thesis using WsOpen
    by (auto simp: one_handle_def onopen_def nth_list_update split: if_splits)
next
  case (WsMessage i d)
  assume "one_handle s"
  then show ?thesis using WsMessage
    by (auto simp: one_handle_onmessage split: sum.splits)
next
  case (WsError i)
  assume "one_handle s"
  then show ?thesis using WsError by (simp add: one_handle_def onerror_def)
next
  case (WsClose i)
  assume inv: "one_handle s"
  show ?thesis
  proof (cases "i < length (sockets s) \<and> sockets s ! i \<noteq> CLOSED")
    case True
    with inv have w: "ws s = Some i" by (simp add: one_handle_def)
    have "sockets s ! j = CLOSED" if "j < length (sockets s)" "j \<noteq> i" for j
      using inv w that by (auto simp: one_handle_def)
    then show ?thesis using WsClose True
      by (auto simp: one_handle_def onclose_def nth_list_update)
  next
    case False
    then show ?thesis using WsClose inv by auto
  qed
qed

lemma one_handle_run: "one_handle s \<Longrightarrow> one_handle (run P es s)"
  by (induction es arbitrary: s) (simp_all add: one_handle_step)

lemma one_live_index:
  "(\<forall>i < length xs. xs ! i \<noteq> CLOSED \<longrightarrow> i = k) \<Longrightarrow> length (filter (\<lambda>r. r \<noteq> CLOSED) xs) \<le> 1"
proof (induction xs arbitrary: k)
  case Nil
  then show ?case by simp
next
  case (Cons x xs)
  show ?case
  proof (cases k)
    case 0
    have "filter (\<lambda>r. r \<noteq> CLOSED) xs = []"
    proof (rule ccontr)
      assume "filter (\<lambda>r. r \<noteq> CLOSED) xs \<noteq> []"
      then obtain r where "r \<in> set xs" "r \<noteq> CLOSED"
        by (auto simp: filter_empty_conv)
      then obtain j where "j < length xs" "xs ! j \<noteq> CLOSED"
        by (auto simp: in_set_conv_nth)
      with Cons.prems [rule_format, of "Suc j"] 0 show False by simp
    qed
    then show ?thesis by simp
  next
    case (Suc k')
    from Cons.prems [rule_format, of 0] Suc have "x = CLOSED" by auto
    moreover have "\<forall>i < length xs. xs ! i \<noteq> CLOSED \<longrightarrow> i = k'"
      using Cons.prems [rule_format, of "Suc _"] Suc by auto
    ultimately show ?thesis using Cons.IH [of k'] by simp
  qed
qed

lemma one_handle_live: "one_handle s \<Longrightarrow> live_channels s \<le> 1"
proof (cases "ws s")
  case None
  assume "one_handle s"
  then have "\<forall>i < length (sockets s). sockets s ! i \<noteq> CLOSED \<longrightarrow> i = 0"
    using None by (simp add: one_handle_def)
  then show ?thesis unfolding live_channels_def by (rule one_live_index)
next
  case (Some k)
  assume "one_handle s"
  then have "\<forall>i < length (sockets s). sockets s ! i \<noteq> CLOSED \<longrightarrow> i = k"
    using Some by (simp add: one_handle_def)
  then show ?thesis unfolding live_channels_def by (rule one_live_index)
qed


lemma isAuthenticated_step:
  "isAuthenticated (step P e s) = (case auth_write P e of None \<Rightarrow> isAuthenticated s | Some v \<Rightarrow> v)"
proof (cases e)
  case (ProbeDone out)
  then show ?thesis
    by (cases out)
      (auto simp: checkAuthStatus_def checkAuthStatus_try_def isAuthenticated_setIsAuthenticated
        split: sum.splits)
next
  case (WsMessage i d)
  then show ?thesis by (auto dest: sockets_onmessage split: sum.splits)
qed (simp_all add: isAuthenticated_setIsAuthenticated handleLogout_def handleGetData_start_def
      sockets_handleGetData_done onopen_def onerror_def onclose_def)

lemma sockets_setIsAuthenticated:
  "length (sockets (setIsAuthenticated P v s)) =
     length (sockets s) +
       (if \<not> Object_is (isAuthenticated s) v \<and> truthy P v \<and> ws s = None then 1 else 0)"
  by (auto simp: setIsAuthenticated_def effect_def split: option.splits)

lemma ws_setIsAuthenticated:
  "ws s = None \<Longrightarrow> Object_is (isAuthenticated s) v \<Longrightarrow> ws (setIsAuthenticated P v s) = None"
  by (simp add: setIsAuthenticated_def)

lemma length_sockets_step:
  "length (sockets (step P e s)) = length (sockets s) + (if creates P e s then 1 else 0)"
proof (cases e)
  case (ProbeDone out)
  then show ?thesis
    by (cases out)
      (auto simp: creates_def checkAuthStatus_def checkAuthStatus_try_def
        sockets_setIsAuthenticated split: sum.splits)
next
  case (WsMessage i d)
  then show ?thesis by (auto simp: creates_def dest: sockets_onmessage split: sum.splits)
qed (simp_all add: creates_def sockets_setIsAuthenticated handleLogout_def
      handleGetData_start_def sockets_handleGetData_done onopen_def onerror_def onclose_def)

lemma creates_boolean:
  assumes "isAuthenticated s = Bool a" and "isAuthenticated (step P e s) = Bool b"
  shows "creates P e s \<longleftrightarrow> \<not> a \<and> b \<and> ws s = None"
  using assms isAuthenticated_step [of P e s]
  by (auto simp: creates_def split: option.splits)

lemma is_Bool_iff: "is_Bool v \<longleftrightarrow> (\<exists>b. v = Bool b)"
  by (cases v) simp_all

lemma boolean_auth_head: "boolean_auth P es s \<Longrightarrow> is_Bool (isAuthenticated s)"
  by (cases es) simp_all

lemma created_count:
  "boolean_auth P es s \<Longrightarrow>
     length (sockets (run P es s)) = length (sockets s) + opening_flips P es s"
proof (induction es arbitrary: s)
  case Nil
  then show ?case by simp
next
  case (Cons e es)
  from Cons.prems obtain a where a: "isAuthenticated s = Bool a"
    by (auto simp: is_Bool_iff)
  from Cons.prems have "boolean_auth P es (step P e s)" by simp
  then have "is_Bool (isAuthenticated (step P e s))" by (rule boolean_auth_head)
  then obtain b where b: "isAuthenticated (step P e s) = Bool b"
    by (auto simp: is_Bool_iff)
  have "length (sockets (step P e s)) =
          length (sockets s) + (if \<not> a \<and> b \<and> ws s = None then 1 else 0)"
    using creates_boolean [OF a b] by (simp add: length_sockets_step)
  moreover have "length (sockets (run P es (step P e s))) =
          length (sockets (step P e s)) + opening_flips P es (step P e s)"
    using Cons.IH \<open>boolean_auth P es (step P e s)\<close> by simp
  ultimately show ?case using a b by simp
qed

lemma steady_step:
  assumes "case auth_write P e of None \<Rightarrow> True | Some v \<Rightarrow> Object_is (isAuthenticated s) v"
  shows "length (sockets (step P e s)) = length (sockets s)"
    and "ws s = None \<Longrightarrow> ws (step P e s) = None"
    and "isAuthenticated (step P e s) = isAuthenticated s"
proof -
  show "length (sockets (step P e s)) = length (sockets s)"
    using assms by (auto simp: length_sockets_step creates_def split: option.splits)
  show "isAuthenticated (step P e s) = isAuthenticated s"
    using assms by (auto simp: isAuthenticated_step dest: Object_is_eq split: option.splits)
  show "ws (step P e s) = None" if "ws s = None"
  proof (cases e)
    case (ProbeDone out)
    then show ?thesis using assms that
      by (cases out)
        (auto simp: checkAuthStatus_def checkAuthStatus_try_def ws_setIsAuthenticated
          split: sum.splits)
  next
    case (WsMessage i d)
    then show ?thesis using that by (auto dest: sockets_onmessage split: sum.splits)
  qed (use assms that in \<open>simp_all add: ws_setIsAuthenticated handleLogout_def
      handleGetData_start_def sockets_handleGetData_done onopen_def onerror_def onclose_def\<close>)
qed

lemma steady_run:
  "auth_steady P es s \<Longrightarrow>
     length (sockets (run P es s)) = length (sockets s)
     \<and> (ws s = None \<longrightarrow> ws (run P es s) = None)
     \<and> isAuthenticated (run P es s) = isAuthenticated s"
proof (induction es arbitrary: s)
  case Nil
  then show ?case by simp
next
  case (Cons e es)
  then have e: "case auth_write P e of None \<Rightarrow> True | Some v \<Rightarrow> Object_is (isAuthenticated s) v"
    and es: "auth_steady P es (step P e s)" by simp_all
  from Cons.IH [OF es] steady_step [OF e] show ?case by simp
qed

lemma close_socket_idem: "close_socket i (close_socket i socks) = close_socket i socks"
  by (auto simp: close_socket_def)

lemma teardown:
  assumes "\<not> truthy P v" and "ws s = Some i"
  shows "ws (effect P (cleanup (s\<lparr> isAuthenticated := v \<rparr>))) = Some i"
    and "sockets (effect P (cleanup (s\<lparr> isAuthenticated := v \<rparr>))) = close_socket i (sockets s)"
  using assms by (auto simp: effect_def cleanup_def close_socket_idem)

lemmas handler_defs =
  init_def sample_platform_def sample_texts_def checkAuthStatus_def checkAuthStatus_try_def
  setIsAuthenticated_def effect_def cleanup_def close_socket_def onopen_def onmessage_def
  onerror_def onclose_def js_or_def handleLogout_def handleGetData_def handleGetData_start_def
  handleGetData_done_def handleGetData_try_def trigger_error_def BACKEND_URL_def

section \<open>The lifecycle of the channel\<close>

text \<open>
  C1. In every execution from the first render at most one WebSocket is not closed. When
  \<^verbatim>\<open>isAuthenticated\<close> holds booleans throughout, the number of WebSockets made is the
  number of steps that take it from \<^verbatim>\<open>false\<close> to \<^verbatim>\<open>true\<close> in a state whose ref is
  \<^verbatim>\<open>null\<close>. A flip from \<^verbatim>\<open>false\<close> to \<^verbatim>\<open>true\<close> makes a WebSocket exactly when the
  ref is \<^verbatim>\<open>null\<close>, and writing \<^verbatim>\<open>true\<close> again changes nothing.
\<close>

theorem at_most_one_channel:
  "live_channels (run P es init) \<le> 1
   \<and> (boolean_auth P es init \<longrightarrow>
         length (sockets (run P es init)) = opening_flips P es init)
   \<and> (isAuthenticated s = Bool False \<longrightarrow>
         length (sockets (step P (SetAuthenticated (Bool True)) s)) =
           length (sockets s) + (if ws s = None then 1 else 0))
   \<and> (isAuthenticated s = Bool True \<longrightarrow> step P (SetAuthenticated (Bool True)) s = s)"
proof -
  have "one_handle (init :: 'a app)"
    by (simp add: one_handle_def init_def)
  then have "live_channels (run P es init) \<le> 1"
    by (intro one_handle_live one_handle_run)
  moreover have "length (sockets (run P es init)) = opening_flips P es init"
    if "boolean_auth P es init"
    using created_count [OF that] by (simp add: init_def)
  moreover have "length (sockets (step P (SetAuthenticated (Bool True)) s)) =
      length (sockets s) + (if ws s = None then 1 else 0)"
    if "isAuthenticated s = Bool False"
    using that by (simp add: sockets_setIsAuthenticated)
  moreover have "step P (SetAuthenticated (Bool True)) s = s"
    if "isAuthenticated s = Bool True"
    using that by (simp add: setIsAuthenticated_def)
  ultimately show ?thesis by blast
qed

theorem at_most_one_channel_witness:
  "boolean_auth sample_platform
     [SetAuthenticated (Bool True), SetAuthenticated (Bool True), WsOpen 0,
      SetAuthenticated (Bool False), SetAuthenticated (Bool True), WsClose 0,
      SetAuthenticated (Bool False), SetAuthenticated (Bool True)] init
   \<and> opening_flips sample_platform
     [SetAuthenticated (Bool True), SetAuthenticated (Bool True), WsOpen 0,
      SetAuthenticated (Bool False), SetAuthenticated (Bool True), WsClose 0,
      SetAuthenticated (Bool False), SetAuthenticated (Bool True)] init = 2
   \<and> sockets (run sample_platform
     [SetAuthenticated (Bool True), SetAuthenticated (Bool True), WsOpen 0,
      SetAuthenticated (Bool False), SetAuthenticated (Bool True), WsClose 0,
      SetAuthenticated (Bool False), SetAuthenticated (Bool True)] init) = [CLOSED, CONNECTING]
   \<and> live_channels (run sample_platform
     [SetAuthenticated (Bool True), SetAuthenticated (Bool True), WsOpen 0,
      SetAuthenticated (Bool False), SetAuthenticated (Bool True), WsClose 0,
      SetAuthenticated (Bool False), SetAuthenticated (Bool True)] init) \<le> 1
   \<and> length (sockets (step sample_platform (SetAuthenticated (Bool True)) init)) = 1
   \<and> step sample_platform (SetAuthenticated (Bool True))
        (step sample_platform (SetAuthenticated (Bool True)) init) =
      step sample_platform (SetAuthenticated (Bool True)) init"
  using at_most_one_channel [of sample_platform
     "[SetAuthenticated (Bool True), SetAuthenticated (Bool True), WsOpen 0,
      SetAuthenticated (Bool False), SetAuthenticated (Bool True), WsClose 0,
      SetAuthenticated (Bool False), SetAuthenticated (Bool True)]" init]
    at_most_one_channel [of sample_platform "[]"
      "step sample_platform (SetAuthenticated (Bool True)) init"]
  by (simp add: handler_defs)

text \<open>
  C8. Along an execution in which no step changes \<^verbatim>\<open>isAuthenticated\<close>, whatever the
  WebSocket events, requests and repeated writes of the same value, no WebSocket is made
  and a ref that is \<^verbatim>\<open>null\<close> stays \<^verbatim>\<open>null\<close>; in particular the ref is \<^verbatim>\<open>null\<close> from
  the close of the channel on. With \<^verbatim>\<open>isAuthenticated\<close> true and the ref \<^verbatim>\<open>null\<close>,
  writing \<^verbatim>\<open>false\<close> and then \<^verbatim>\<open>true\<close> makes a new WebSocket.
\<close>

theorem no_reopen_without_toggle:
  assumes "auth_steady P es s"
  shows "length (sockets (run P es s)) = length (sockets s)
       \<and> isAuthenticated (run P es s) = isAuthenticated s
       \<and> (ws s = None \<longrightarrow> ws (run P es s) = None)
       \<and> (\<forall>i es'. es = WsClose i # es' \<longrightarrow> i < length (sockets s) \<longrightarrow>
             sockets s ! i \<noteq> CLOSED \<longrightarrow> ws (run P es s) = None)
       \<and> (isAuthenticated (run P es s) = Bool True \<longrightarrow> ws (run P es s) = None \<longrightarrow>
             ws (run P [SetAuthenticated (Bool False), SetAuthenticated (Bool True)] (run P es s))
               = Some (length (sockets s)))"
proof -
  note r = steady_run [OF assms]
  have "ws (run P es s) = None"
    if "es = WsClose i # es'" "i < length (sockets s)" "sockets s ! i \<noteq> CLOSED" for i es'
  proof -
    from assms that have "auth_steady P es' (step P (WsClose i) s)" by simp
    moreover have "ws (step P (WsClose i) s) = None"
      using that by (simp add: onclose_def)
    ultimately have "ws (run P es' (step P (WsClose i) s)) = None"
      using steady_run by blast
    then show ?thesis using that by simp
  qed
  moreover have "ws (run P [SetAuthenticated (Bool False), SetAuthenticated (Bool True)] t)
      = Some (length (sockets t))"
    if "isAuthenticated t = Bool True" "ws t = None" for t :: "'a app"
    using that by (simp add: setIsAuthenticated_def effect_def cleanup_def)
  ultimately show ?thesis using r by simp
qed

theorem no_reopen_without_toggle_witness:
  \<open>auth_steady sample_platform
     [WsError 0, WsClose 0, GetDataStart, GetDataDone NetworkFailure,
      SetAuthenticated (Bool True), WsOpen 0]
     (run sample_platform [ProbeDone (Response True ''{"authenticated":true}''), WsOpen 0] init)
   \<and> run sample_platform
     [WsError 0, WsClose 0, GetDataStart, GetDataDone NetworkFailure,
      SetAuthenticated (Bool True), WsOpen 0]
     (run sample_platform [ProbeDone (Response True ''{"authenticated":true}''), WsOpen 0] init)
     = \<lparr> isAuthenticated = Bool True, userData = Null, loading = False,
         error = Str ''Failed to send data request to backend.'', statusMessage = [],
         ws = None, sockets = [CLOSED], location_href = None \<rparr>
   \<and> ws (run sample_platform [SetAuthenticated (Bool False), SetAuthenticated (Bool True)]
       (run sample_platform
         [WsError 0, WsClose 0, GetDataStart, GetDataDone NetworkFailure,
          SetAuthenticated (Bool True), WsOpen 0]
         (run sample_platform [ProbeDone (Response True ''{"authenticated":true}''), WsOpen 0] init)))
     = Some 1\<close>
  using no_reopen_without_toggle [of sample_platform
     "[WsError 0, WsClose 0, GetDataStart, GetDataDone NetworkFailure,
       SetAuthenticated (Bool True), WsOpen 0]"
     \<open>run sample_platform [ProbeDone (Response True ''{"authenticated":true}''), WsOpen 0] init\<close>]
  by (simp add: handler_defs)

text \<open>
  C7. The close handler sets the ref to \<^verbatim>\<open>null\<close> and the status message to
  \<^verbatim>\<open>Disconnected from server.\<close>, and leaves \<^verbatim>\<open>userData\<close> and \<^verbatim>\<open>error\<close> as they
  were; the close event of a WebSocket that is not closed yet changes nothing else but the
  \<^verbatim>\<open>readyState\<close> of that WebSocket.
\<close>

theorem close_event:
  "ws (onclose s) = None
   \<and> statusMessage (onclose s) = ''Disconnected from server.''
   \<and> userData (onclose s) = userData s
   \<and> error (onclose s) = error s
   \<and> (i < length (sockets s) \<longrightarrow> sockets s ! i \<noteq> CLOSED \<longrightarrow>
        step P (WsClose i) s =
          s\<lparr> sockets := (sockets s)[i := CLOSED], statusMessage := ''Disconnected from server.'',
             ws := None \<rparr>)"
  by (simp add: onclose_def)

theorem close_event_witness:
  \<open>step sample_platform (WsClose 0)
     (run sample_platform
        [ProbeDone (Response True ''{"authenticated":true}''), WsOpen 0,
         WsMessage 0 ''{"temp":21}'', WsError 0] init)
   = \<lparr> isAuthenticated = Bool True, userData = Obj [(''temp'', Num ''21'')], loading = False,
       error = Str ''A WebSocket error occurred. Connection may be lost.'',
       statusMessage = ''Disconnected from server.'', ws = None, sockets = [CLOSED],
       location_href = None \<rparr>\<close>
  using close_event [of \<open>run sample_platform
        [ProbeDone (Response True ''{"authenticated":true}''), WsOpen 0,
         WsMessage 0 ''{"temp":21}'', WsError 0] init\<close> 0 sample_platform]
  by (simp add: handler_defs)

section \<open>Messages of the channel\<close>





text \<open>
  C3, as the code has it. For the message \<^verbatim>\<open>{"error":"E1","details":"bad token"}\<close> the
  handler sets \<^verbatim>\<open>error\<close> to \<^verbatim>\<open>Error from server: bad token\<close>, the details behind a
  fixed prefix, and \<^verbatim>\<open>userData\<close> to \<^verbatim>\<open>null\<close>.
\<close>

theorem onmessage_bad_token:
  assumes \<open>JSON_parse P ''{"error":"E1","details":"bad token"}'' =
             Inr (Obj [(''error'', Str ''E1''), (''details'', Str ''bad token'')])\<close>
  shows \<open>onmessage P ''{"error":"E1","details":"bad token"}'' s =
           Inr (s\<lparr> error := Str ''Error from server: bad token'', userData := Null,
                  statusMessage := ''Data received!'' \<rparr>)\<close>
  using assms by (simp add: onmessage_def js_or_def)

theorem onmessage_bad_token_witness:
  \<open>onmessage sample_platform ''{"error":"E1","details":"bad token"}'' init =
     Inr (init\<lparr> error := Str ''Error from server: bad token'', userData := Null,
              statusMessage := ''Data received!'' \<rparr>)\<close>
  using onmessage_bad_token [of sample_platform init]
  by (simp add: sample_platform_def sample_texts_def)

text \<open>C3 as stated fails: after that message the error is not the string
  \<^verbatim>\<open>bad token\<close>.\<close>

theorem onmessage_bad_token_counterexample:
  \<open>\<not> (\<exists>s'. onmessage sample_platform ''{"error":"E1","details":"bad token"}'' init = Inr s'
          \<and> error s' = Str ''bad token'')\<close>
  by (simp add: onmessage_def sample_platform_def sample_texts_def js_or_def)

text \<open>
  C9. The handler is not total: it has no \<^verbatim>\<open>try\<close>, so the \<^verbatim>\<open>SyntaxError\<close> that
  \<^verbatim>\<open>JSON.parse\<close> raises on a frame that is not JSON leaves the handler, and so does the
  \<^verbatim>\<open>TypeError\<close> of reading \<^verbatim>\<open>data.error\<close> when the frame is the JSON text
  \<^verbatim>\<open>null\<close>. Both requests of the component read their JSON inside a \<^verbatim>\<open>try\<close>.
\<close>

theorem onmessage_raises:
  "(JSON_parse P event_data = Inl e \<longrightarrow> onmessage P event_data s = Inl e)
   \<and> (JSON_parse P event_data = Inr Null \<longrightarrow> onmessage P event_data s = Inl TypeError)"
  by (simp add: onmessage_def)

theorem onmessage_raises_witness:
  \<open>onmessage sample_platform ''Service unavailable'' init = Inl SyntaxError
   \<and> onmessage sample_platform ''null'' init = Inl TypeError\<close>
  using onmessage_raises [of sample_platform \<open>''Service unavailable''\<close> SyntaxError init]
    onmessage_raises [of sample_platform \<open>''null''\<close> SyntaxError init]
  by (simp add: sample_platform_def sample_texts_def)

section \<open>Logout\<close>

text \<open>
  C4, as the code has it. \<^verbatim>\<open>handleLogout\<close> sets \<^verbatim>\<open>isAuthenticated\<close> to \<^verbatim>\<open>false\<close>,
  sets \<^verbatim>\<open>userData\<close> to \<^verbatim>\<open>null\<close>, leaves \<^verbatim>\<open>error\<close> as it was and navigates to the
  logout address; when \<^verbatim>\<open>isAuthenticated\<close> was not \<^verbatim>\<open>false\<close> already, the effect asks
  the WebSocket of the ref to close.
\<close>

theorem handleLogout_frame:
  "isAuthenticated (handleLogout P s) = Bool False
   \<and> userData (handleLogout P s) = Null
   \<and> error (handleLogout P s) = error s
   \<and> location_href (handleLogout P s) = Some (BACKEND_URL @ ''/logout'')
   \<and> (\<forall>i. isAuthenticated s \<noteq> Bool False \<longrightarrow> ws s = Some i \<longrightarrow>
         ws (handleLogout P s) = Some i
         \<and> sockets (handleLogout P s) = close_socket i (sockets s))"
proof -
  have "isAuthenticated (handleLogout P s) = Bool False"
    by (simp add: handleLogout_def isAuthenticated_setIsAuthenticated)
  moreover have "userData (handleLogout P s) = Null"
    by (simp add: handleLogout_def)
  moreover have "error (handleLogout P s) = error s"
    by (simp add: handleLogout_def error_setIsAuthenticated)
  moreover have "location_href (handleLogout P s) = Some (BACKEND_URL @ ''/logout'')"
    by (simp add: handleLogout_def)
  moreover have "ws (handleLogout P s) = Some i
      \<and> sockets (handleLogout P s) = close_socket i (sockets s)"
    if "isAuthenticated s \<noteq> Bool False" and "ws s = Some i" for i
    using that teardown [of P "Bool False" s i]
    by (simp add: handleLogout_def setIsAuthenticated_def)
  ultimately show ?thesis by blast
qed

theorem handleLogout_frame_witness:
  \<open>handleLogout sample_platform
      (run sample_platform
         [ProbeDone (Response True ''{"authenticated":true}''), WsOpen 0,
          WsMessage 0 ''{"error":"E7"}''] init) =
    \<lparr> isAuthenticated = Bool False, userData = Null, loading = False,
      error = Str ''Error from server: E7'', statusMessage = ''Data received!'',
      ws = Some 0, sockets = [CLOSING],
      location_href = Some ''https://aedesign-sonoff-backend.onrender.com/logout'' \<rparr>\<close>
  using handleLogout_frame [of sample_platform \<open>run sample_platform
         [ProbeDone (Response True ''{"authenticated":true}''), WsOpen 0,
          WsMessage 0 ''{"error":"E7"}''] init\<close>]
  by (simp add: handler_defs)

text \<open>C4 as stated fails: after a data message, logout does not leave \<^verbatim>\<open>userData\<close> as it
  was.\<close>

theorem handleLogout_clears_data_counterexample:
  \<open>userData (run sample_platform
         [ProbeDone (Response True ''{"authenticated":true}''), WsOpen 0,
          WsMessage 0 ''{"temp":21}''] init) = Obj [(''temp'', Num ''21'')]
   \<and> userData (handleLogout sample_platform
      (run sample_platform
         [ProbeDone (Response True ''{"authenticated":true}''), WsOpen 0,
          WsMessage 0 ''{"temp":21}''] init)) = Null\<close>
  by (simp add: handler_defs)

section \<open>The trigger request\<close>

text \<open>
  C5, as the code has it. After a response that is not \<^verbatim>\<open>ok\<close> and whose body parses to
  a value other than \<^verbatim>\<open>null\<close>, the error is \<^verbatim>\<open>detail.error\<close> when that is truthy,
  else \<^verbatim>\<open>detail\<close> when that is truthy, else \<^verbatim>\<open>Failed to trigger data fetch.\<close>; when
  the body is not JSON or is \<^verbatim>\<open>null\<close>, and when the request fails, the error is
  \<^verbatim>\<open>Failed to send data request to backend.\<close> The bodies
  \<^verbatim>\<open>{"detail":{"error":"rate limited"}}\<close> and \<^verbatim>\<open>{"detail":"forbidden"}\<close> give
  \<^verbatim>\<open>rate limited\<close> and \<^verbatim>\<open>forbidden\<close>.
\<close>

theorem handleGetData_error_message:
  \<open>(\<forall>result detail nested.
       JSON_parse P body = Inr result \<longrightarrow> get_prop result ''detail'' = Inr detail \<longrightarrow>
       get_prop_opt detail ''error'' = Inr nested \<longrightarrow>
       error (handleGetData_done P (Response False body) s) =
         (if truthy P nested then nested
          else if truthy P detail then detail
          else Str ''Failed to trigger data fetch.''))
   \<and> (\<forall>e. JSON_parse P body = Inl e \<or> JSON_parse P body = Inr Null \<longrightarrow>
         error (handleGetData_done P (Response False body) s) =
           Str ''Failed to send data request to backend.'')
   \<and> error (handleGetData_done P NetworkFailure s) = Str ''Failed to send data request to backend.''
   \<and> (JSON_parse P ''{"detail":{"error":"rate limited"}}'' =
         Inr (Obj [(''detail'', Obj [(''error'', Str ''rate limited'')])]) \<longrightarrow>
       error (handleGetData_done P (Response False ''{"detail":{"error":"rate limited"}}'') s) =
         Str ''rate limited'')
   \<and> (JSON_parse P ''{"detail":"forbidden"}'' = Inr (Obj [(''detail'', Str ''forbidden'')]) \<longrightarrow>
       error (handleGetData_done P (Response False ''{"detail":"forbidden"}'') s) =
         Str ''forbidden'')\<close>
  by (auto simp: handleGetData_done_def handleGetData_try_def trigger_error_def js_or_def)

theorem handleGetData_error_message_witness:
  \<open>error (handleGetData_done sample_platform (Response False ''{"detail":{"error":"rate limited"}}'') init)
     = Str ''rate limited''
   \<and> error (handleGetData_done sample_platform (Response False ''{"detail":"forbidden"}'') init)
     = Str ''forbidden''
   \<and> error (handleGetData_done sample_platform (Response False ''{}'') init)
     = Str ''Failed to trigger data fetch.''
   \<and> error (handleGetData_done sample_platform (Response False ''null'') init)
     = Str ''Failed to send data request to backend.''\<close>
  using handleGetData_error_message [of sample_platform \<open>''{"detail":{"error":"rate limited"}}''\<close> init]
    handleGetData_error_message [of sample_platform \<open>''{"detail":"forbidden"}''\<close> init]
    handleGetData_error_message [of sample_platform \<open>''{}''\<close> init]
    handleGetData_error_message [of sample_platform \<open>''null''\<close> init]
  by (simp add: sample_platform_def sample_texts_def)

text \<open>C5 as stated fails on a response that is not \<^verbatim>\<open>ok\<close> and whose body is not JSON: the
  body has no \<^verbatim>\<open>detail\<close>, yet the error is not the fallback of the rejection but the
  message of the failed request.\<close>

theorem handleGetData_bad_gateway_counterexample:
  \<open>error (handleGetData sample_platform (Response False ''Bad Gateway'') init)
     = Str ''Failed to send data request to backend.''
   \<and> error (handleGetData sample_platform (Response False ''Bad Gateway'') init)
     \<noteq> Str ''Failed to trigger data fetch.''\<close>
  by (simp add: handler_defs)

text \<open>
  C10. The body is parsed before \<^verbatim>\<open>response.ok\<close> is read: when the body is not JSON,
  whatever the status, the request ends as a failed request does, with the error
  \<^verbatim>\<open>Failed to send data request to backend.\<close> and an empty status message.
\<close>

theorem handleGetData_unparsable_body:
  assumes "JSON_parse P body = Inl e"
  shows "handleGetData_done P (Response ok body) s =
           s\<lparr> error := Str ''Failed to send data request to backend.'', statusMessage := [] \<rparr>
       \<and> handleGetData_done P (Response ok body) s = handleGetData_done P NetworkFailure s
       \<and> handleGetData P (Response ok body) s = handleGetData P NetworkFailure s"
  using assms by (simp add: handleGetData_def handleGetData_done_def handleGetData_try_def)

theorem handleGetData_unparsable_body_witness:
  \<open>handleGetData sample_platform (Response True ''OK'') init =
     init\<lparr> error := Str ''Failed to send data request to backend.'' \<rparr>
   \<and> handleGetData sample_platform (Response False ''<html>502</html>'') init =
     handleGetData sample_platform NetworkFailure init\<close>
  using handleGetData_unparsable_body [of sample_platform \<open>''OK''\<close> SyntaxError True
      \<open>handleGetData_start init\<close>]
    handleGetData_unparsable_body [of sample_platform \<open>''<html>502</html>''\<close> SyntaxError False init]
  by (simp add: sample_platform_def sample_texts_def handleGetData_def handleGetData_start_def
      init_def)

section \<open>The status request\<close>



end
